theory Spec2Isabelle
  imports Main "HOL-Library.Log_Nat"
begin

section \<open>Host numbers: Python floats, ints and bools\<close>

text \<open>
  The interpreter computes with the values of its host language.  A Python \<^verbatim>\<open>float\<close> is an
  IEEE binary64 number: a finite value (a rational here, always one that binary64 can
  represent), the negative zero, an infinity or the NaN.  Every arithmetic result is the
  exact rational result rounded to the nearest representable value, ties to even.
\<close>

datatype pyfloat = Finite rat | NegZero | PosInf | NegInf | NaN

definition pow2 :: "int \<Rightarrow> rat" where
  "pow2 e = (if 0 \<le> e then 2 ^ nat e else 1 / 2 ^ nat (- e))"

text \<open>The binary exponent \<open>\<lfloor>log\<^sub>2 a\<rfloor>\<close> of a positive rational.\<close>

definition ilog2 :: "rat \<Rightarrow> int" where
  "ilog2 a = (if 1 \<le> a then bitlen \<lfloor>a\<rfloor> - 1 else - bitlen (\<lceil>1 / a\<rceil> - 1))"

definition round_half_even :: "rat \<Rightarrow> int" where
  "round_half_even x =
     (let f = \<lfloor>x\<rfloor>; d = x - of_int f
      in if d < 1 / 2 then f else if 1 / 2 < d then f + 1 else if even f then f else f + 1)"

text \<open>
  The spacing of binary64 numbers around a magnitude: 53 significant bits, and the
  subnormal spacing \<open>2\<^sup>-\<^sup>1\<^sup>0\<^sup>7\<^sup>4\<close> below \<open>2\<^sup>-\<^sup>1\<^sup>0\<^sup>2\<^sup>2\<close>.
\<close>

definition quantum :: "rat \<Rightarrow> rat" where
  "quantum a = pow2 (max (ilog2 a) (- 1022) - 52)"

definition nearest :: "rat \<Rightarrow> rat \<Rightarrow> rat" where
  "nearest q a = of_int (round_half_even (a / q)) * q"

definition pack :: "bool \<Rightarrow> rat \<Rightarrow> pyfloat" where
  "pack neg m =
     (if pow2 1024 \<le> m then (if neg then NegInf else PosInf)
      else if m = 0 then (if neg then NegZero else Finite 0)
      else Finite (if neg then - m else m))"

definition round64 :: "rat \<Rightarrow> pyfloat" where
  "round64 r = pack (r < 0) (nearest (quantum \<bar>r\<bar>) \<bar>r\<bar>)"

fun fval :: "pyfloat \<Rightarrow> rat" where
  "fval (Finite r) = r"
| "fval _ = 0"

fun fsign :: "pyfloat \<Rightarrow> bool" where
  "fsign (Finite r) = (r < 0)"
| "fsign NegZero = True"
| "fsign NegInf = True"
| "fsign _ = False"

definition fzero :: "pyfloat \<Rightarrow> bool" where
  "fzero x = (x = Finite 0 \<or> x = NegZero)"

definition finf :: "pyfloat \<Rightarrow> bool" where
  "finf x = (x = PosInf \<or> x = NegInf)"

definition signed_zero :: "bool \<Rightarrow> pyfloat" where
  "signed_zero neg = (if neg then NegZero else Finite 0)"

definition signed_inf :: "bool \<Rightarrow> pyfloat" where
  "signed_inf neg = (if neg then NegInf else PosInf)"

fun fneg :: "pyfloat \<Rightarrow> pyfloat" where
  "fneg (Finite r) = (if r = 0 then NegZero else Finite (- r))"
| "fneg NegZero = Finite 0"
| "fneg PosInf = NegInf"
| "fneg NegInf = PosInf"
| "fneg NaN = NaN"

definition fadd :: "pyfloat \<Rightarrow> pyfloat \<Rightarrow> pyfloat" where
  "fadd x y =
     (if x = NaN \<or> y = NaN then NaN
      else if finf x then (if finf y \<and> x \<noteq> y then NaN else x)
      else if finf y then y
      else if x = NegZero \<and> y = NegZero then NegZero
      else round64 (fval x + fval y))"

definition fsub :: "pyfloat \<Rightarrow> pyfloat \<Rightarrow> pyfloat" where
  "fsub x y = fadd x (fneg y)"

definition fmul :: "pyfloat \<Rightarrow> pyfloat \<Rightarrow> pyfloat" where
  "fmul x y =
     (if x = NaN \<or> y = NaN then NaN
      else if (finf x \<and> fzero y) \<or> (fzero x \<and> finf y) then NaN
      else if finf x \<or> finf y then signed_inf (fsign x \<noteq> fsign y)
      else if fzero x \<or> fzero y then signed_zero (fsign x \<noteq> fsign y)
      else round64 (fval x * fval y))"

text \<open>The quotient by a divisor that is not zero (Python tests for zero before dividing).\<close>

definition fdiv :: "pyfloat \<Rightarrow> pyfloat \<Rightarrow> pyfloat" where
  "fdiv x y =
     (if x = NaN \<or> y = NaN then NaN
      else if finf x \<and> finf y then NaN
      else if finf x then signed_inf (fsign x \<noteq> fsign y)
      else if finf y \<or> fzero x then signed_zero (fsign x \<noteq> fsign y)
      else round64 (fval x / fval y))"

text \<open>
  Comparison is by numeric value, exactly, also between an int and a float; the two zeros
  are equal and the NaN is neither equal to nor ordered with anything.
\<close>

datatype xnum = XNaN | XNegInf | XFin rat | XPosInf

fun xnum_of_float :: "pyfloat \<Rightarrow> xnum" where
  "xnum_of_float (Finite r) = XFin r"
| "xnum_of_float NegZero = XFin 0"
| "xnum_of_float PosInf = XPosInf"
| "xnum_of_float NegInf = XNegInf"
| "xnum_of_float NaN = XNaN"

fun xlt :: "xnum \<Rightarrow> xnum \<Rightarrow> bool" where
  "xlt XNaN _ = False"
| "xlt _ XNaN = False"
| "xlt (XFin a) (XFin b) = (a < b)"
| "xlt _ XNegInf = False"
| "xlt XNegInf _ = True"
| "xlt XPosInf _ = False"
| "xlt _ XPosInf = True"

fun xeq :: "xnum \<Rightarrow> xnum \<Rightarrow> bool" where
  "xeq XNaN _ = False"
| "xeq _ XNaN = False"
| "xeq a b = (a = b)"

definition xle :: "xnum \<Rightarrow> xnum \<Rightarrow> bool" where
  "xle a b = (xlt a b \<or> xeq a b)"

section \<open>Expressions, environments and values\<close>

text \<open>
  \<^verbatim>\<open>Expression = Union[float, bool, SchemeSymbol, List['Expression']]\<close>
\<close>

datatype expr = Number pyfloat | Boolean bool | Symbol string | List "expr list"

text \<open>
  \<^verbatim>\<open>class Env\<close>: a reference to a dictionary of bindings and an optional parent.  The
  dictionaries are mutable and shared, so they live in a store and an \<open>Env\<close> holds the
  address of its own; the parent link is set once, by the constructor.
\<close>

type_synonym addr = nat

datatype env = Env (bindings: addr) (parent: "env option")

datatype prim = PAdd | PSub | PMul | PDiv | PEq | PLe | PGe | PLt | PGt | PNot

text \<open>
  What \<^verbatim>\<open>evaluate\<close> can return.  Besides floats, bools and procedures the host gives two
  more kinds: \<^verbatim>\<open>None\<close>, which \<^verbatim>\<open>_define\<close> returns, and Python ints, which arithmetic on
  bools produces (\<^verbatim>\<open>sum(())\<close> is the int \<^verbatim>\<open>0\<close>).  A closure is the function object made by
  \<^verbatim>\<open>_lambda\<close>: its identity, its parameters, its body and the \<open>Env\<close> it captured.
\<close>

datatype val =
    VFloat pyfloat
  | VInt int
  | VBool bool
  | VNone
  | Builtin prim
  | Closure nat "string list" expr env

datatype error =
    SyntaxError | NameError | TypeError | IndexError | KeyError
  | ZeroDivisionError | OverflowError

text \<open>
  The outcome of a computation: a value, a raised exception, or \<open>OutOfFuel\<close> when the
  recursion budget of the model ran out before the computation finished.
\<close>

datatype 'a result = Return 'a | Raise error | OutOfFuel

record state =
  heap :: "addr \<Rightarrow> string \<Rightarrow> val option"
  fresh :: nat

section \<open>Host arithmetic on values\<close>

datatype num = I int | F pyfloat

fun as_num :: "val \<Rightarrow> num option" where
  "as_num (VFloat x) = Some (F x)"
| "as_num (VInt i) = Some (I i)"
| "as_num (VBool b) = Some (I (if b then 1 else 0))"
| "as_num _ = None"

text \<open>An int operand of a float operation is converted first; a too large one overflows.\<close>

fun to_float :: "num \<Rightarrow> pyfloat result" where
  "to_float (F x) = Return x"
| "to_float (I i) =
     (let x = round64 (of_int i) in if finf x then Raise OverflowError else Return x)"

definition arith ::
  "(int \<Rightarrow> int \<Rightarrow> val result) \<Rightarrow> (pyfloat \<Rightarrow> pyfloat \<Rightarrow> val result) \<Rightarrow> val \<Rightarrow> val \<Rightarrow> val result"
where
  "arith iop fop a b =
     (case (as_num a, as_num b) of
        (Some (I i), Some (I j)) \<Rightarrow> iop i j
      | (Some x, Some y) \<Rightarrow>
          (case to_float x of
             Return u \<Rightarrow>
               (case to_float y of
                  Return v \<Rightarrow> fop u v
                | Raise e \<Rightarrow> Raise e
                | OutOfFuel \<Rightarrow> OutOfFuel)
           | Raise e \<Rightarrow> Raise e
           | OutOfFuel \<Rightarrow> OutOfFuel)
      | _ \<Rightarrow> Raise TypeError)"

definition py_add :: "val \<Rightarrow> val \<Rightarrow> val result" where
  "py_add = arith (\<lambda>i j. Return (VInt (i + j))) (\<lambda>x y. Return (VFloat (fadd x y)))"

definition py_sub :: "val \<Rightarrow> val \<Rightarrow> val result" where
  "py_sub = arith (\<lambda>i j. Return (VInt (i - j))) (\<lambda>x y. Return (VFloat (fsub x y)))"

definition py_mul :: "val \<Rightarrow> val \<Rightarrow> val result" where
  "py_mul = arith (\<lambda>i j. Return (VInt (i * j))) (\<lambda>x y. Return (VFloat (fmul x y)))"

text \<open>
  True division of two ints is the correctly rounded quotient, with the sign of a zero
  result taken from the operands.
\<close>

definition int_truediv :: "int \<Rightarrow> int \<Rightarrow> val result" where
  "int_truediv i j =
     (if j = 0 then Raise ZeroDivisionError
      else let x = round64 (of_int i / of_int j)
           in if finf x then Raise OverflowError
              else if fzero x then Return (VFloat (signed_zero ((i < 0) \<noteq> (j < 0))))
              else Return (VFloat x))"

definition py_truediv :: "val \<Rightarrow> val \<Rightarrow> val result" where
  "py_truediv =
     arith int_truediv
       (\<lambda>x y. if fzero y then Raise ZeroDivisionError else Return (VFloat (fdiv x y)))"

fun py_neg :: "val \<Rightarrow> val result" where
  "py_neg (VFloat x) = Return (VFloat (fneg x))"
| "py_neg (VInt i) = Return (VInt (- i))"
| "py_neg (VBool b) = Return (VInt (- (if b then 1 else 0)))"
| "py_neg _ = Raise TypeError"

fun xnum_of :: "val \<Rightarrow> xnum option" where
  "xnum_of (VFloat x) = Some (xnum_of_float x)"
| "xnum_of (VInt i) = Some (XFin (of_int i))"
| "xnum_of (VBool b) = Some (XFin (if b then 1 else 0))"
| "xnum_of _ = None"

text \<open>
  \<^verbatim>\<open>x == y\<close> never raises: numbers compare by value, \<^verbatim>\<open>None\<close> equals itself, and function
  objects are equal only when they are the same object.
\<close>

definition py_eq :: "val \<Rightarrow> val \<Rightarrow> bool" where
  "py_eq a b =
     (case (xnum_of a, xnum_of b) of
        (Some x, Some y) \<Rightarrow> xeq x y
      | (None, None) \<Rightarrow>
          (case (a, b) of
             (VNone, VNone) \<Rightarrow> True
           | (Builtin p, Builtin q) \<Rightarrow> p = q
           | (Closure i _ _ _, Closure j _ _ _) \<Rightarrow> i = j
           | _ \<Rightarrow> False)
      | _ \<Rightarrow> False)"

definition py_cmp :: "(xnum \<Rightarrow> xnum \<Rightarrow> bool) \<Rightarrow> val \<Rightarrow> val \<Rightarrow> val result" where
  "py_cmp rel a b =
     (case (xnum_of a, xnum_of b) of
        (Some x, Some y) \<Rightarrow> Return (VBool (rel x y))
      | _ \<Rightarrow> Raise TypeError)"

text \<open>Python's truth value of an object, which \<^verbatim>\<open>not x\<close> negates.\<close>

fun truthy :: "val \<Rightarrow> bool" where
  "truthy (VFloat x) = (\<not> fzero x)"
| "truthy (VInt i) = (i \<noteq> 0)"
| "truthy (VBool b) = b"
| "truthy VNone = False"
| "truthy (Builtin _) = True"
| "truthy (Closure _ _ _ _) = True"

text \<open>\<^verbatim>\<open>sum(args)\<close>: the items are added to the int \<^verbatim>\<open>0\<close> from left to right.\<close>

fun sum_from :: "val \<Rightarrow> val list \<Rightarrow> val result" where
  "sum_from tot [] = Return tot"
| "sum_from tot (a # rest) =
     (case py_add tot a of
        Return t \<Rightarrow> sum_from t rest
      | Raise e \<Rightarrow> Raise e
      | OutOfFuel \<Rightarrow> OutOfFuel)"

definition py_sum :: "val list \<Rightarrow> val result" where
  "py_sum args = sum_from (VInt 0) args"

section \<open>The builtins\<close>

text \<open>
  The ten lambdas that \<^verbatim>\<open>create_global_env\<close> binds.  A call that does not fit a lambda's
  parameter list is a \<^verbatim>\<open>TypeError\<close> of the host; \<^verbatim>\<open>args[0]\<close> on no arguments is an
  \<^verbatim>\<open>IndexError\<close>.
  \<^verbatim>\<open>
  '+': lambda *args: sum(args),
  '-': lambda x, *ys: x - sum(ys) if ys else -x,
  '*': lambda *args: (args[0] if len(args) == 1 else args[0] * args[1]),
  '/': lambda x, y: x / y,
  '=': lambda x, y: x == y,
  '<=': lambda x, y: x <= y,
  '>=': lambda x, y: x >= y,
  '<': lambda x, y: x < y,
  '>': lambda x, y: x > y,
  'not': lambda x: not x,
  \<close>
\<close>

fun builtin :: "prim \<Rightarrow> val list \<Rightarrow> val result" where
  "builtin PAdd args = py_sum args"
| "builtin PSub [] = Raise TypeError"
| "builtin PSub (x # ys) =
     (if ys \<noteq> [] then
        (case py_sum ys of
           Return t \<Rightarrow> py_sub x t
         | Raise e \<Rightarrow> Raise e
         | OutOfFuel \<Rightarrow> OutOfFuel)
      else py_neg x)"
| "builtin PMul [] = Raise IndexError"
| "builtin PMul [x] = Return x"
| "builtin PMul (x # y # _) = py_mul x y"
| "builtin PDiv [x, y] = py_truediv x y"
| "builtin PEq [x, y] = Return (VBool (py_eq x y))"
| "builtin PLe [x, y] = py_cmp xle x y"
| "builtin PGe [x, y] = py_cmp (\<lambda>a b. xle b a) x y"
| "builtin PLt [x, y] = py_cmp xlt x y"
| "builtin PGt [x, y] = py_cmp (\<lambda>a b. xlt b a) x y"
| "builtin PNot [x] = Return (VBool (\<not> truthy x))"
| "builtin _ _ = Raise TypeError"

definition global_bindings :: "string \<Rightarrow> val option" where
  "global_bindings =
     [''+'' \<mapsto> Builtin PAdd, ''-'' \<mapsto> Builtin PSub, ''*'' \<mapsto> Builtin PMul,
      ''/'' \<mapsto> Builtin PDiv, ''='' \<mapsto> Builtin PEq, ''<='' \<mapsto> Builtin PLe,
      ''>='' \<mapsto> Builtin PGe, ''<'' \<mapsto> Builtin PLt, ''>'' \<mapsto> Builtin PGt,
      ''not'' \<mapsto> Builtin PNot]"

text \<open>
  \<^verbatim>\<open>create_global_env\<close>: the first dictionary of a fresh store holds the builtins, and the
  global \<open>Env\<close> has no parent.
\<close>

definition global_env :: env where
  "global_env = Env 0 None"

definition create_global_env :: state where
  "create_global_env = \<lparr>heap = (\<lambda>_. Map.empty)(0 := global_bindings), fresh = 1\<rparr>"

section \<open>Environment\<close>

text \<open>
  \<^verbatim>\<open>
  def find(self, var):
      if var in self.bindings:
          return self.bindings
      if self.parent:
          return self.parent.find(var)
      raise NameError(f"Variable '{var}' not found")
  \<close>
  The result is the dictionary that holds \<open>var\<close>, by its address.
\<close>

fun find :: "(addr \<Rightarrow> string \<Rightarrow> val option) \<Rightarrow> env \<Rightarrow> string \<Rightarrow> addr result" where
  "find h (Env b p) var =
     (if h b var \<noteq> None then Return b
      else case p of
             Some e \<Rightarrow> find h e var
           | None \<Rightarrow> Raise NameError)"

text \<open>\<^verbatim>\<open>env.find(expr)[expr]\<close>, the lookup of a symbol.\<close>

definition getitem :: "(addr \<Rightarrow> string \<Rightarrow> val option) \<Rightarrow> env \<Rightarrow> string \<Rightarrow> val result" where
  "getitem h e key =
     (case find h e key of
        Return a \<Rightarrow> (case h a key of Some v \<Rightarrow> Return v | None \<Rightarrow> Raise KeyError)
      | Raise err \<Rightarrow> Raise err
      | OutOfFuel \<Rightarrow> OutOfFuel)"

text \<open>\<^verbatim>\<open>env[key] = value\<close> writes into the dictionary of \<open>env\<close> itself.\<close>

definition setitem :: "env \<Rightarrow> string \<Rightarrow> val \<Rightarrow> state \<Rightarrow> state" where
  "setitem e key v s = s\<lparr>heap := (heap s)(bindings e := (heap s (bindings e))(key \<mapsto> v))\<rparr>"

text \<open>
  The dictionaries of an environment chain, from the innermost \<open>Env\<close> outward.
\<close>

fun chain :: "env \<Rightarrow> addr list" where
  "chain (Env b p) = b # (case p of None \<Rightarrow> [] | Some e \<Rightarrow> chain e)"

text \<open>
  \<^verbatim>\<open>Env(dict(zip(params, args)), env)\<close>: a new dictionary pairs parameters with arguments
  position by position, as far as the shorter of the two lists goes (and a repeated
  parameter keeps its last argument); its parent is the given \<open>Env\<close>.
\<close>

definition new_env :: "string list \<Rightarrow> val list \<Rightarrow> env \<Rightarrow> state \<Rightarrow> env \<times> state" where
  "new_env params args e s =
     (Env (fresh s) (Some e),
      s\<lparr>heap := (heap s)(fresh s := Map.empty(params [\<mapsto>] args)), fresh := Suc (fresh s)\<rparr>)"

section \<open>Evaluator\<close>

fun is_Symbol :: "expr \<Rightarrow> bool" where
  "is_Symbol (Symbol _) = True"
| "is_Symbol _ = False"

fun symbol_name :: "expr \<Rightarrow> string" where
  "symbol_name (Symbol x) = x"
| "symbol_name _ = []"

fun callable :: "val \<Rightarrow> bool" where
  "callable (Builtin _) = True"
| "callable (Closure _ _ _ _) = True"
| "callable _ = False"

text \<open>
  \<^verbatim>\<open>_lambda\<close> checks the shape and returns a new function object that keeps the parameter
  list, the body and the \<open>Env\<close> it was made in.
\<close>

definition sf_lambda :: "expr list \<Rightarrow> env \<Rightarrow> state \<Rightarrow> val result \<times> state" where
  "sf_lambda expr e s =
     (case expr of
        [_, List params, body] \<Rightarrow>
          if list_all is_Symbol params
          then (Return (Closure (fresh s) (map symbol_name params) body e),
                s\<lparr>fresh := Suc (fresh s)\<rparr>)
          else (Raise SyntaxError, s)
      | _ \<Rightarrow> (Raise SyntaxError, s))"

text \<open>The keys of the table \<^verbatim>\<open>special_forms\<close>.\<close>

datatype form = If | Lambda | And | Or

definition special_forms :: "string \<Rightarrow> form option" where
  "special_forms = [''if'' \<mapsto> If, ''lambda'' \<mapsto> Lambda, ''and'' \<mapsto> And, ''or'' \<mapsto> Or]"

text \<open>
  \<^verbatim>\<open>evaluate\<close> and the handlers that call it back: \<^verbatim>\<open>_define\<close>, \<^verbatim>\<open>_if\<close>, \<^verbatim>\<open>_and\<close>, \<^verbatim>\<open>_or\<close>
  (with their loops), the argument list of an application and the call of a procedure.
  The first argument bounds the depth of nested \<^verbatim>\<open>evaluate\<close> calls; the host's own limit on
  that depth is not modelled.  The recursion ends because every call from \<^verbatim>\<open>evaluate\<close>
  lowers the bound, a handler calls back at the same bound, and a loop goes down its list.
\<close>

function (sequential) evaluate :: "nat \<Rightarrow> expr \<Rightarrow> env \<Rightarrow> state \<Rightarrow> val result \<times> state"
  and sf_define :: "nat \<Rightarrow> expr list \<Rightarrow> env \<Rightarrow> state \<Rightarrow> val result \<times> state"
  and sf_if :: "nat \<Rightarrow> expr list \<Rightarrow> env \<Rightarrow> state \<Rightarrow> val result \<times> state"
  and sf_and :: "nat \<Rightarrow> expr list \<Rightarrow> env \<Rightarrow> state \<Rightarrow> val result \<times> state"
  and and_loop :: "nat \<Rightarrow> expr list \<Rightarrow> val \<Rightarrow> env \<Rightarrow> state \<Rightarrow> val result \<times> state"
  and sf_or :: "nat \<Rightarrow> expr list \<Rightarrow> env \<Rightarrow> state \<Rightarrow> val result \<times> state"
  and or_loop :: "nat \<Rightarrow> expr list \<Rightarrow> val \<Rightarrow> env \<Rightarrow> state \<Rightarrow> val result \<times> state"
  and eval_args :: "nat \<Rightarrow> expr list \<Rightarrow> env \<Rightarrow> state \<Rightarrow> val list result \<times> state"
  and call :: "nat \<Rightarrow> val \<Rightarrow> val list \<Rightarrow> state \<Rightarrow> val result \<times> state"
where
  "evaluate 0 expr e s = (OutOfFuel, s)"
| "evaluate (Suc n) (Number x) e s = (Return (VFloat x), s)"
| "evaluate (Suc n) (Boolean b) e s = (Return (VBool b), s)"
| "evaluate (Suc n) (Symbol x) e s = (getitem (heap s) e x, s)"
| "evaluate (Suc n) (List []) e s = (Raise SyntaxError, s)"
| "evaluate (Suc n) (List (form # rest)) e s =
     (if form = Symbol ''define'' then sf_define n (form # rest) e s
      else case (if is_Symbol form then special_forms (symbol_name form) else None) of
        Some If \<Rightarrow> sf_if n (form # rest) e s
      | Some Lambda \<Rightarrow> sf_lambda (form # rest) e s
      | Some And \<Rightarrow> sf_and n (form # rest) e s
      | Some Or \<Rightarrow> sf_or n (form # rest) e s
      | None \<Rightarrow>
          (case evaluate n form e s of
             (Return proc, s1) \<Rightarrow>
               if \<not> callable proc then (Raise TypeError, s1)
               else (case eval_args n rest e s1 of
                       (Return args, s2) \<Rightarrow> call n proc args s2
                     | (Raise err, s2) \<Rightarrow> (Raise err, s2)
                     | (OutOfFuel, s2) \<Rightarrow> (OutOfFuel, s2))
           | (Raise err, s1) \<Rightarrow> (Raise err, s1)
           | (OutOfFuel, s1) \<Rightarrow> (OutOfFuel, s1)))"
| "sf_define n expr e s =
     (case expr of
        [_, Symbol var, value] \<Rightarrow>
          (case evaluate n value e s of
             (Return v, s1) \<Rightarrow> (Return VNone, setitem e var v s1)
           | (Raise err, s1) \<Rightarrow> (Raise err, s1)
           | (OutOfFuel, s1) \<Rightarrow> (OutOfFuel, s1))
      | _ \<Rightarrow> (Raise SyntaxError, s))"
| "sf_if n expr e s =
     (case expr of
        [_, test, consequent, alternative] \<Rightarrow>
          (case evaluate n test e s of
             (Return v, s1) \<Rightarrow>
               if v \<noteq> VBool False then evaluate n consequent e s1
               else evaluate n alternative e s1
           | (Raise err, s1) \<Rightarrow> (Raise err, s1)
           | (OutOfFuel, s1) \<Rightarrow> (OutOfFuel, s1))
      | _ \<Rightarrow> (Raise SyntaxError, s))"
| "sf_and n expr e s =
     (if length expr = 1 then (Return (VBool True), s)
      else and_loop n (tl expr) (VBool True) e s)"
| "and_loop n [] v e s = (Return v, s)"
| "and_loop n (arg # args) v e s =
     (case evaluate n arg e s of
        (Return v1, s1) \<Rightarrow>
          if v1 = VBool False then (Return (VBool False), s1)
          else and_loop n args v1 e s1
      | (Raise err, s1) \<Rightarrow> (Raise err, s1)
      | (OutOfFuel, s1) \<Rightarrow> (OutOfFuel, s1))"
| "sf_or n expr e s =
     (if length expr = 1 then (Return (VBool False), s)
      else or_loop n (tl expr) (VBool False) e s)"
| "or_loop n [] v e s = (Return v, s)"
| "or_loop n (arg # args) v e s =
     (case evaluate n arg e s of
        (Return v1, s1) \<Rightarrow>
          if v1 \<noteq> VBool False then (Return v1, s1)
          else or_loop n args v1 e s1
      | (Raise err, s1) \<Rightarrow> (Raise err, s1)
      | (OutOfFuel, s1) \<Rightarrow> (OutOfFuel, s1))"
| "eval_args n [] e s = (Return [], s)"
| "eval_args n (arg # args) e s =
     (case evaluate n arg e s of
        (Return v, s1) \<Rightarrow>
          (case eval_args n args e s1 of
             (Return vs, s2) \<Rightarrow> (Return (v # vs), s2)
           | (Raise err, s2) \<Rightarrow> (Raise err, s2)
           | (OutOfFuel, s2) \<Rightarrow> (OutOfFuel, s2))
      | (Raise err, s1) \<Rightarrow> (Raise err, s1)
      | (OutOfFuel, s1) \<Rightarrow> (OutOfFuel, s1))"
| "call n (Builtin p) args s = (builtin p args, s)"
| "call n (Closure i params body ce) args s =
     (case new_env params args ce s of (e1, s1) \<Rightarrow> evaluate n body e1 s1)"
| "call n _ args s = (Raise TypeError, s)"

  by pat_completeness auto

termination
  by (relation "measures
        [\<lambda>x. case x of
            Inl (Inl (Inl (n, _))) \<Rightarrow> n
          | Inl (Inl (Inr (n, _))) \<Rightarrow> n
          | Inl (Inr (Inl (n, _))) \<Rightarrow> n
          | Inl (Inr (Inr (n, _))) \<Rightarrow> n
          | Inr (Inl (Inl (n, _))) \<Rightarrow> n
          | Inr (Inl (Inr (n, _))) \<Rightarrow> n
          | Inr (Inr (Inl (n, _))) \<Rightarrow> n
          | Inr (Inr (Inr (Inl (n, _)))) \<Rightarrow> n
          | Inr (Inr (Inr (Inr (n, _)))) \<Rightarrow> n,
         \<lambda>x. case x of
            Inl (Inl (Inl _)) \<Rightarrow> 0
          | Inl (Inl (Inr _)) \<Rightarrow> 2
          | Inl (Inr (Inl _)) \<Rightarrow> 2
          | Inl (Inr (Inr _)) \<Rightarrow> 2
          | Inr (Inl (Inl _)) \<Rightarrow> 1
          | Inr (Inl (Inr _)) \<Rightarrow> 2
          | Inr (Inr (Inl _)) \<Rightarrow> 1
          | Inr (Inr (Inr (Inl _))) \<Rightarrow> 1
          | Inr (Inr (Inr (Inr _))) \<Rightarrow> 1,
         \<lambda>x. case x of
            Inr (Inl (Inl (_, args, _))) \<Rightarrow> length args
          | Inr (Inr (Inl (_, args, _))) \<Rightarrow> length args
          | Inr (Inr (Inr (Inl (_, args, _)))) \<Rightarrow> length args
          | _ \<Rightarrow> 0]")
    auto

text \<open>
  The drivers (\<^verbatim>\<open>repl_mode\<close>, \<^verbatim>\<open>file_mode\<close>) evaluate one form after the other in the same
  \<open>Env\<close>.  They catch \<^verbatim>\<open>SyntaxError\<close>, \<^verbatim>\<open>NameError\<close>, \<^verbatim>\<open>TypeError\<close> and \<^verbatim>\<open>IndexError\<close>,
  report them and go on; any other exception ends the run.  The outcome of every form
  that was evaluated is recorded in order.
\<close>

definition caught :: "error \<Rightarrow> bool" where
  "caught err = (err = SyntaxError \<or> err = NameError \<or> err = TypeError \<or> err = IndexError)"

fun run_forms :: "nat \<Rightarrow> expr list \<Rightarrow> env \<Rightarrow> state \<Rightarrow> val result list \<times> state" where
  "run_forms n [] e s = ([], s)"
| "run_forms n (form # forms) e s =
     (case evaluate n form e s of
        (Return v, s1) \<Rightarrow> (case run_forms n forms e s1 of (rs, s2) \<Rightarrow> (Return v # rs, s2))
      | (Raise err, s1) \<Rightarrow>
          if caught err
          then (case run_forms n forms e s1 of (rs, s2) \<Rightarrow> (Raise err # rs, s2))
          else ([Raise err], s1)
      | (OutOfFuel, s1) \<Rightarrow> ([OutOfFuel], s1))"

section \<open>Atoms and the parser\<close>

text \<open>
  \<^verbatim>\<open>float(token)\<close> on a string of code points below 256: the surrounding whitespace (the
  ASCII characters tab, line feed, vertical tab, form feed, carriage return and space,
  and the non-ASCII ones U+0085 and U+00A0) is dropped, then comes an
  optional sign and either \<^verbatim>\<open>inf\<close>, \<^verbatim>\<open>infinity\<close> or \<^verbatim>\<open>nan\<close> in any case, or a decimal
  number with an optional exponent, whose digits may be grouped by single underscores.
  The value is the nearest binary64 number.  \<open>None\<close> stands for \<^verbatim>\<open>ValueError\<close>.
\<close>

definition is_space :: "char \<Rightarrow> bool" where
  "is_space c = (of_char c \<in> {9, 10, 11, 12, 13, 32, 133, 160 :: nat})"

definition strip :: "string \<Rightarrow> string" where
  "strip s = rev (dropWhile is_space (rev (dropWhile is_space s)))"

definition is_digit :: "char \<Rightarrow> bool" where
  "is_digit c = (c \<in> set ''0123456789'')"

definition digit_val :: "char \<Rightarrow> int" where
  "digit_val c = of_char c - 48"

definition lower :: "char \<Rightarrow> char" where
  "lower c = (if c \<in> set ''ABCDEFGHIJKLMNOPQRSTUVWXYZ'' then char_of (of_char c + 32 :: nat) else c)"

text \<open>The digits after the first one of a group: \<^verbatim>\<open>(["_"] digit)*\<close>, and what follows them.\<close>

fun more_digits :: "string \<Rightarrow> int list \<times> string" where
  "more_digits [] = ([], [])"
| "more_digits [c] = (if is_digit c then ([digit_val c], []) else ([], [c]))"
| "more_digits (c # d # cs) =
     (if is_digit c then (case more_digits (d # cs) of (ds, r) \<Rightarrow> (digit_val c # ds, r))
      else if c = CHR ''_'' \<and> is_digit d
           then (case more_digits cs of (ds, r) \<Rightarrow> (digit_val d # ds, r))
      else ([], c # d # cs))"

definition digitpart :: "string \<Rightarrow> int list \<times> string" where
  "digitpart s =
     (case s of
        c # cs \<Rightarrow>
          if is_digit c then (case more_digits cs of (ds, r) \<Rightarrow> (digit_val c # ds, r))
          else ([], s)
      | [] \<Rightarrow> ([], s))"

definition digits_val :: "int list \<Rightarrow> int" where
  "digits_val ds = foldl (\<lambda>a d. 10 * a + d) 0 ds"

definition split_sign :: "string \<Rightarrow> bool \<times> string" where
  "split_sign s =
     (case s of
        c # cs \<Rightarrow>
          if c = CHR ''-'' then (True, cs) else if c = CHR ''+'' then (False, cs) else (False, s)
      | [] \<Rightarrow> (False, s))"

definition pow10 :: "int \<Rightarrow> rat" where
  "pow10 e = (if 0 \<le> e then 10 ^ nat e else 1 / 10 ^ nat (- e))"

definition exponent :: "string \<Rightarrow> int option" where
  "exponent s =
     (case s of
        [] \<Rightarrow> Some 0
      | c # cs \<Rightarrow>
          if c = CHR ''e'' \<or> c = CHR ''E''
          then (case split_sign cs of
                  (neg, r) \<Rightarrow>
                    (case digitpart r of
                       (ds, r2) \<Rightarrow>
                         if ds \<noteq> [] \<and> r2 = []
                         then Some (if neg then - digits_val ds else digits_val ds)
                         else None))
          else None)"

definition floatnumber :: "string \<Rightarrow> rat option" where
  "floatnumber s =
     (case digitpart s of
        (ip, r1) \<Rightarrow>
          (case (case r1 of
                   c # cs \<Rightarrow> if c = CHR ''.'' then digitpart cs else ([], r1)
                 | [] \<Rightarrow> ([], r1)) of
             (fp, r2) \<Rightarrow>
               if ip = [] \<and> fp = [] then None
               else (case exponent r2 of
                       None \<Rightarrow> None
                     | Some ex \<Rightarrow>
                         Some (of_int (digits_val (ip @ fp)) / 10 ^ length fp * pow10 ex))))"

definition py_float :: "string \<Rightarrow> pyfloat option" where
  "py_float str =
     (case split_sign (strip str) of
        (neg, body) \<Rightarrow>
          if map lower body = ''inf'' \<or> map lower body = ''infinity'' then Some (signed_inf neg)
          else if map lower body = ''nan'' then Some NaN
          else (case floatnumber body of
                  None \<Rightarrow> None
                | Some r \<Rightarrow>
                    Some (if r = 0 then signed_zero neg else round64 (if neg then - r else r))))"

text \<open>
  \<^verbatim>\<open>
  def atom(token):
      try:
          return float(token)
      except ValueError:
          if token == '#t': return True
          if token == '#f': return False
          return token
  \<close>
\<close>

definition atom :: "string \<Rightarrow> expr" where
  "atom token =
     (case py_float token of
        Some x \<Rightarrow> Number x
      | None \<Rightarrow>
          if token = ''#t'' then Boolean True
          else if token = ''#f'' then Boolean False
          else Symbol token)"

text \<open>
  \<^verbatim>\<open>parse\<close> pops tokens off the front of a shared list; here it returns the expression
  together with the tokens it left.  \<open>parse_list\<close> is its \<^verbatim>\<open>while\<close> loop, which collects
  the elements of a parenthesised group in \<open>L\<close>.
\<close>

function parse :: "string list \<Rightarrow> (expr \<times> string list) result"
  and parse_list :: "expr list \<Rightarrow> string list \<Rightarrow> (expr list \<times> string list) result"
where
  "parse [] = Raise SyntaxError"
| "parse (token # tokens) =
     (if token = ''('' then
        (case parse_list [] tokens of
           Return (L, rest) \<Rightarrow>
             if rest = [] \<or> hd rest \<noteq> '')'' then Raise SyntaxError
             else Return (List L, tl rest)
         | Raise err \<Rightarrow> Raise err
         | OutOfFuel \<Rightarrow> OutOfFuel)
      else if token = '')'' then Raise SyntaxError
      else Return (atom token, tokens))"
| "parse_list L tokens =
     (if tokens \<noteq> [] \<and> hd tokens \<noteq> '')'' then
        (case parse tokens of
           Return (x, rest) \<Rightarrow> parse_list (L @ [x]) rest
         | Raise err \<Rightarrow> Raise err
         | OutOfFuel \<Rightarrow> OutOfFuel)
      else Return (L, tokens))"
  by pat_completeness auto

text \<open>Each call of \<open>parse\<close> that returns has taken at least one token, so the loop ends.\<close>

lemma parse_shrinks:
  "parse_parse_list_dom (Inl ts) \<Longrightarrow> parse ts = Return (x, rest) \<Longrightarrow> length rest < length ts"
  "parse_parse_list_dom (Inr (L, ts)) \<Longrightarrow> parse_list L ts = Return (L', rest) \<Longrightarrow> length rest \<le> length ts"
proof (induction ts and L ts arbitrary: x rest and L' rest rule: parse_parse_list.pinduct)
  case 1
  then show ?case by (simp add: parse.psimps)
next
  case (2 token tokens)
  then show ?case
    by (auto simp add: parse.psimps split: if_splits result.splits prod.splits list.splits)
next
  case (3 L tokens)
  from "3.prems" "3.hyps" have eq:
    "(if tokens \<noteq> [] \<and> hd tokens \<noteq> '')'' then
        (case parse tokens of
           Return (x, rest) \<Rightarrow> parse_list (L @ [x]) rest
         | Raise err \<Rightarrow> Raise err
         | OutOfFuel \<Rightarrow> OutOfFuel)
      else Return (L, tokens)) = Return (L', rest)"
    by (simp add: parse_list.psimps)
  show ?case
  proof (cases "tokens \<noteq> [] \<and> hd tokens \<noteq> '')''")
    case True
    with eq obtain x y where p: "parse tokens = Return (x, y)"
      and q: "parse_list (L @ [x]) y = Return (L', rest)"
      by (auto split: result.splits)
    from "3.IH"(1)[OF True p] have "length y < length tokens" .
    moreover from "3.IH"(2)[OF True p refl q] have "length rest \<le> length y" .
    ultimately show ?thesis by simp
  next
    case False
    with eq show ?thesis by simp
  qed
qed

termination parse
  apply (relation "measure (\<lambda>x. case x of Inl ts \<Rightarrow> 2 * length ts | Inr (L, ts) \<Rightarrow> 2 * length ts + 1)")
  apply simp_all
  using parse_shrinks(1) apply fastforce
  done

text \<open>
  The equation of the loop is not a rewrite rule of its own accord: it applies to every
  call of \<open>parse_list\<close>, so it is unfolded by hand.
\<close>

declare parse_list.simps [simp del]





section \<open>Rounding is exact on small integers\<close>

lemma round_half_even_of_int [simp]: "round_half_even (of_int j) = j"
  by (simp add: round_half_even_def)

lemma bitlen_le_53:
  assumes "0 < k" "k < 2 ^ 53"
  shows "1 \<le> bitlen k" "bitlen k \<le> 53"
proof -
  from bitlen_bounds [OF assms(1)] have "(2::int) ^ nat (bitlen k - 1) \<le> k" by simp
  with assms(2) have "(2::int) ^ nat (bitlen k - 1) < 2 ^ 53" by linarith
  then have "nat (bitlen k - 1) < 53" by (rule power_less_imp_less_exp [rotated]) simp
  then show "bitlen k \<le> 53" by simp
  from assms(1) show "1 \<le> bitlen k" by (simp add: bitlen_alt_def)
qed

lemma round64_pos_int:
  assumes "0 < k" "k < 2 ^ 53"
  shows "round64 (of_int k) = Finite (of_int k)" "round64 (- of_int k) = Finite (- of_int k)"
proof -
  let ?b = "bitlen k"
  from bitlen_le_53 [OF assms] have b: "1 \<le> ?b" "?b \<le> 53" .
  from assms(1) have a1: "(1::rat) \<le> of_int k" by simp
  have il: "ilog2 (of_int k) = ?b - 1" using a1 by (simp add: ilog2_def)
  have q: "quantum (of_int k) = 1 / 2 ^ nat (53 - ?b)"
  proof (cases "?b = 53")
    case True
    then show ?thesis by (simp add: quantum_def il pow2_def)
  next
    case False
    with b have "?b - 1 - 52 < 0" by simp
    moreover have "- (?b - 1 - 52) = 53 - ?b" by simp
    ultimately show ?thesis using b by (simp add: quantum_def il pow2_def)
  qed
  have e1: "(of_int k :: rat) / (1 / 2 ^ nat (53 - ?b)) = of_int (k * 2 ^ nat (53 - ?b))" by simp
  have "nearest (quantum (of_int k)) (of_int k)
          = of_int (k * 2 ^ nat (53 - ?b)) * (1 / 2 ^ nat (53 - ?b))"
    unfolding nearest_def q e1 by (simp only: round_half_even_of_int)
  also have "\<dots> = of_int k" by simp
  finally have n: "nearest (quantum (of_int k)) (of_int k) = of_int k" .
  have "(of_int k :: rat) < 2 ^ 53" using assms(2) by (metis of_int_less_iff of_int_numeral of_int_power)
  also have "\<dots> < 2 ^ 1024" by simp
  finally have lt: "(of_int k :: rat) < 2 ^ 1024" .
  from assms(1) have ne: "(of_int k :: rat) \<noteq> 0" "\<not> (of_int k :: rat) < 0" by simp_all
  show "round64 (of_int k) = Finite (of_int k)"
    using lt ne assms(1) by (simp add: round64_def n pack_def pow2_def)
  show "round64 (- of_int k) = Finite (- of_int k)"
    using lt ne assms(1) by (simp add: round64_def n pack_def pow2_def)
qed

lemma round64_zero [simp]: "round64 0 = Finite 0"
  by (simp add: round64_def pack_def nearest_def quantum_def pow2_def ilog2_def round_half_even_def)

lemma round64_numeral [simp]:
  "numeral w < (2 ^ 53 :: int) \<Longrightarrow> round64 (numeral w) = Finite (numeral w)"
  "numeral w < (2 ^ 53 :: int) \<Longrightarrow> round64 (- numeral w) = Finite (- numeral w)"
  using round64_pos_int [of "numeral w"] by simp_all

lemma round64_one [simp]: "round64 1 = Finite 1" "round64 (- 1) = Finite (- 1)"
  using round64_pos_int [of 1] by simp_all

section \<open>More fuel does not change an outcome\<close>










section \<open>Evaluation of concrete programs\<close>

text \<open>The equations of \<open>evaluate\<close> for a bound written as a numeral.\<close>

lemmas evaluate_numeral [simp] =
  evaluate.simps(2-6) [of "pred_numeral k", folded numeral_eq_Suc] for k

lemma heap_setitem [simp]:
  "heap (setitem e k v s) a = (if a = bindings e then (heap s a)(k \<mapsto> v) else heap s a)"
  by (simp add: setitem_def)

lemma fresh_setitem [simp]: "fresh (setitem e k v s) = fresh s"
  by (simp add: setitem_def)

lemma new_env_simps [simp]:
  "fst (new_env ps as e s) = Env (fresh s) (Some e)"
  "heap (snd (new_env ps as e s)) a = (if a = fresh s then Map.empty(ps [\<mapsto>] as) else heap s a)"
  "fresh (snd (new_env ps as e s)) = Suc (fresh s)"
  by (simp_all add: new_env_def)

lemma call_closure [simp]:
  "call n (Closure i ps body ce) args s = evaluate n body (Env (fresh s) (Some ce)) (snd (new_env ps args ce s))"
  by (simp add: new_env_def)

declare call.simps(2) [simp del]

lemma heap_global [simp]: "heap create_global_env a = (if a = 0 then global_bindings else Map.empty)"
  by (simp add: create_global_env_def)

lemma fresh_global [simp]: "fresh create_global_env = 1"
  by (simp add: create_global_env_def)

lemmas run_simps =
  special_forms_def getitem_def global_env_def sf_lambda_def global_bindings_def
  py_truediv_def py_sub_def py_mul_def py_add_def py_sum_def py_cmp_def arith_def
  fmul_def fsub_def fadd_def finf_def fzero_def xle_def caught_def

section \<open>Closures share the environment they were made in\<close>




section \<open>Calling a closure\<close>

lemma map_upds_outside:
  "x \<notin> set (take (length as) ps) \<Longrightarrow> (m(ps [\<mapsto>] as)) x = m x"
proof (induction ps arbitrary: m as)
  case Nil
  then show ?case by simp
next
  case (Cons p ps)
  show ?case
  proof (cases as)
    case Nil
    then show ?thesis by simp
  next
    case (Cons a as')
    with Cons.prems have x: "x \<noteq> p" "x \<notin> set (take (length as') ps)" by simp_all
    from x(2) have "((m(p \<mapsto> a))(ps [\<mapsto>] as')) x = (m(p \<mapsto> a)) x" by (rule Cons.IH)
    also from x(1) have "\<dots> = m x" by simp
    finally show ?thesis unfolding Cons by (simp only: map_upds_Cons)
  qed
qed

lemma map_upds_surplus: "m(ps [\<mapsto>] take (length ps) as) = m(ps [\<mapsto>] as)"
proof -
  have "zip ps (take (length ps) as) = zip ps as"
  proof (induction ps arbitrary: as)
    case Nil
    then show ?case by simp
  next
    case (Cons p ps)
    then show ?case by (cases as) simp_all
  qed
  then show ?thesis by (simp add: map_upds_def)
qed

lemma new_env_surplus: "new_env params (take (length params) args) ce s = new_env params args ce s"
  by (simp add: new_env_def map_upds_surplus)

lemma map_upds_last:
  "k < length ps \<Longrightarrow> k < length as \<Longrightarrow> ps ! k \<notin> set (drop (Suc k) (take (length as) ps)) \<Longrightarrow>
     (m(ps [\<mapsto>] as)) (ps ! k) = Some (as ! k)"
proof (induction ps arbitrary: m as k)
  case Nil
  then show ?case by simp
next
  case (Cons p ps)
  then obtain a as' where as: "as = a # as'" by (cases as) auto
  show ?case
  proof (cases k)
    case 0
    with Cons.prems as have "p \<notin> set (take (length as') ps)" by simp
    then have "((m(p \<mapsto> a))(ps [\<mapsto>] as')) p = (m(p \<mapsto> a)) p" by (rule map_upds_outside)
    with 0 as show ?thesis by simp
  next
    case (Suc j)
    with Cons.prems as have "j < length ps" "j < length as'"
      "ps ! j \<notin> set (drop (Suc j) (take (length as') ps))" by simp_all
    then have "((m(p \<mapsto> a))(ps [\<mapsto>] as')) (ps ! j) = Some (as' ! j)" by (rule Cons.IH)
    then show ?thesis unfolding as Suc by (simp only: map_upds_Cons nth_Cons_Suc)
  qed
qed

lemma find_in_chain:
  "find h e x = Return a \<Longrightarrow> a \<in> set (chain e) \<and> h a x \<noteq> None"
  by (induction h e x rule: find.induct) (auto split: if_splits option.splits)

lemma find_agree:
  "(\<And>a. a \<in> set (chain e) \<Longrightarrow> h' a = h a) \<Longrightarrow> find h' e x = find h e x"
  by (induction h e x rule: find.induct) (auto split: option.splits)

lemma getitem_agree:
  assumes "\<And>a. a \<in> set (chain e) \<Longrightarrow> h' a = h a"
  shows "getitem h' e x = getitem h e x"
proof -
  have f: "find h' e x = find h e x" using assms by (rule find_agree)
  show ?thesis
  proof (cases "find h e x")
    case (Return a)
    with find_in_chain [OF Return] assms f show ?thesis by (simp add: getitem_def)
  qed (simp_all add: getitem_def f)
qed

text \<open>
  C2, as the code has it: a call never compares the number of arguments with the number
  of parameters.  Whatever the two numbers are, the call evaluates the body in a new
  frame whose parent is the captured environment.  The frame binds the parameters to the
  arguments position by position as far as both lists go, a later binding of a repeated
  name replacing an earlier one; arguments beyond the parameters are dropped (the call
  is the same without them).  So the parameter at a position that has an argument
  reads that argument, unless its name stands again at a later position that has an
  argument; and a name that is not among the parameters that have an argument (such as
  a parameter beyond the arguments whose name stands at no position that has one) is not
  bound in the frame and is looked up in the environment the closure captured.  (The
  frame's dictionary is new: its address is not one of the captured chain.)
\<close>

theorem closure_call_binds_positionally:
  "call n (Closure i params body ce) args s
     = evaluate n body (Env (fresh s) (Some ce)) (snd (new_env params args ce s)) \<and>
   call n (Closure i params body ce) (take (length params) args) s
     = call n (Closure i params body ce) args s \<and>
   (k < length params \<longrightarrow> k < length args \<longrightarrow>
    params ! k \<notin> set (drop (Suc k) (take (length args) params)) \<longrightarrow>
      call (Suc n) (Closure i params (Symbol (params ! k)) ce) args s
        = (Return (args ! k), snd (new_env params args ce s))) \<and>
   (x \<notin> set (take (length args) params) \<longrightarrow> fresh s \<notin> set (chain ce) \<longrightarrow>
      call (Suc n) (Closure i params (Symbol x) ce) args s
        = (getitem (heap s) ce x, snd (new_env params args ce s)))"
proof (intro conjI impI)
  show "call n (Closure i params body ce) args s
     = evaluate n body (Env (fresh s) (Some ce)) (snd (new_env params args ce s))"
    by simp
  show "call n (Closure i params body ce) (take (length params) args) s
     = call n (Closure i params body ce) args s"
    by (simp add: new_env_surplus)
next
  assume "k < length params" "k < length args"
    "params ! k \<notin> set (drop (Suc k) (take (length args) params))"
  then have "(Map.empty(params [\<mapsto>] args)) (params ! k) = Some (args ! k)"
    by (rule map_upds_last)
  then show "call (Suc n) (Closure i params (Symbol (params ! k)) ce) args s
        = (Return (args ! k), snd (new_env params args ce s))"
    by (simp add: getitem_def)
next
  assume x: "x \<notin> set (take (length args) params)" and f: "fresh s \<notin> set (chain ce)"
  from x have un: "(Map.empty(params [\<mapsto>] args)) x = None"
    by (simp add: map_upds_outside)
  have ag: "getitem (heap (snd (new_env params args ce s))) ce x = getitem (heap s) ce x"
    using f by (intro getitem_agree) auto
  have "getitem (heap (snd (new_env params args ce s))) (Env (fresh s) (Some ce)) x
          = getitem (heap (snd (new_env params args ce s))) ce x"
    using un by (simp add: getitem_def)
  with ag show "call (Suc n) (Closure i params (Symbol x) ce) args s
        = (getitem (heap s) ce x, snd (new_env params args ce s))"
    by simp
qed

theorem closure_call_binds_positionally_witness:
  "call 1 (Closure 1 [''x'', ''y''] (Symbol ''x'') global_env) [VFloat (Finite 1)] create_global_env
     = (Return (VFloat (Finite 1)),
        snd (new_env [''x'', ''y''] [VFloat (Finite 1)] global_env create_global_env)) \<and>
   call 1 (Closure 1 [''x'', ''y''] (Symbol ''y'') global_env) [VFloat (Finite 1)] create_global_env
     = (Raise NameError,
        snd (new_env [''x'', ''y''] [VFloat (Finite 1)] global_env create_global_env)) \<and>
   call 1 (Closure 1 [''x'', ''x''] (Symbol ''x'') global_env) [VFloat (Finite 1)] create_global_env
     = (Return (VFloat (Finite 1)),
        snd (new_env [''x'', ''x''] [VFloat (Finite 1)] global_env create_global_env)) \<and>
   call 1 (Closure 1 [''x'', ''x''] (Symbol ''x'') global_env) [VFloat (Finite 1), VFloat (Finite 2)]
       create_global_env
     = (Return (VFloat (Finite 2)),
        snd (new_env [''x'', ''x''] [VFloat (Finite 1), VFloat (Finite 2)] global_env
               create_global_env)) \<and>
   call 1 (Closure 1 [''x''] (Symbol ''+'') global_env) [VFloat (Finite 1), VFloat (Finite 2)]
       create_global_env
     = (Return (Builtin PAdd),
        snd (new_env [''x''] [VFloat (Finite 1), VFloat (Finite 2)] global_env create_global_env))"
  using closure_call_binds_positionally
      [of 0 1 "[''x'', ''y'']" "Symbol ''x''" global_env "[VFloat (Finite 1)]" create_global_env
          0 "''y''"]
    closure_call_binds_positionally
      [of 0 1 "[''x'', ''x'']" "Symbol ''x''" global_env "[VFloat (Finite 1)]" create_global_env
          0 "''y''"]
    closure_call_binds_positionally
      [of 0 1 "[''x'', ''x'']" "Symbol ''x''" global_env "[VFloat (Finite 1), VFloat (Finite 2)]"
          create_global_env 1 "''y''"]
    closure_call_binds_positionally
      [of 0 1 "[''x'']" "Symbol ''x''" global_env "[VFloat (Finite 1), VFloat (Finite 2)]"
          create_global_env 0 "''+''"]
  by (simp add: run_simps)

text \<open>
  The claim as stated fails on \<^verbatim>\<open>((lambda (x y) x) 1)\<close>: a lambda of two parameters called
  with one argument returns \<^verbatim>\<open>1.0\<close>.
\<close>

theorem closure_arity_counterexample:
  "fst (evaluate 4
     (List [List [Symbol ''lambda'', List [Symbol ''x'', Symbol ''y''], Symbol ''x''],
            Number (Finite 1)]) global_env create_global_env)
   = Return (VFloat (Finite 1))"
  by (simp add: run_simps)

section \<open>Division by zero\<close>

text \<open>
  C3, as the code has it: the builtin \<^verbatim>\<open>/\<close> applied to two Numbers of which the second is a
  zero (\<^verbatim>\<open>0.0\<close> or \<^verbatim>\<open>-0.0\<close>) raises the host's \<^verbatim>\<open>ZeroDivisionError\<close>; no infinity and no NaN
  is returned.
\<close>

theorem division_by_zero_raises:
  "fzero y \<Longrightarrow>
     builtin PDiv [VFloat x, VFloat y] = Raise ZeroDivisionError \<and>
     evaluate (Suc (Suc n)) (List [Symbol ''/'', Number x, Number y]) global_env create_global_env
       = (Raise ZeroDivisionError, create_global_env)"
  by (simp add: run_simps)

theorem division_by_zero_raises_witness:
  "fzero NegZero \<and>
   builtin PDiv [VFloat (Finite 1), VFloat NegZero] = Raise ZeroDivisionError \<and>
   evaluate 2 (List [Symbol ''/'', Number (Finite 1), Number NegZero]) global_env create_global_env
     = (Raise ZeroDivisionError, create_global_env)"
  using division_by_zero_raises [of NegZero "Finite 1" 0]
  by (simp add: run_simps)

text \<open>The claim as stated fails on \<^verbatim>\<open>(/ 1 0)\<close>, which raises.\<close>

theorem division_by_zero_counterexample:
  "evaluate 2 (List [Symbol ''/'', Number (Finite 1), Number (Finite 0)]) global_env create_global_env
     = (Raise ZeroDivisionError, create_global_env)"
  by (simp add: run_simps)

section \<open>The builtin \<^verbatim>\<open>not\<close>\<close>

text \<open>
  C4 at the failing input: \<^verbatim>\<open>(not 0)\<close> returns true, because \<^verbatim>\<open>not x\<close> uses the truth
  value of the host, in which the number zero is false, while \<^verbatim>\<open>(if 0 1 2)\<close> takes the
  consequent, because \<^verbatim>\<open>_if\<close> tests \<^verbatim>\<open>is not False\<close>.
\<close>

theorem not_of_zero_is_true:
  "evaluate 2 (List [Symbol ''not'', Number (Finite 0)]) global_env create_global_env
     = (Return (VBool True), create_global_env) \<and>
   evaluate 2 (List [Symbol ''if'', Number (Finite 0), Number (Finite 1), Number (Finite 2)])
       global_env create_global_env
     = (Return (VFloat (Finite 1)), create_global_env)"
  by (simp add: run_simps)

section \<open>Arity and operand types of the builtins\<close>



















section \<open>The special forms\<close>

text \<open>
  C7: in every environment and state, an \<^verbatim>\<open>if\<close> form of four elements evaluates its test;
  when the test returns a value, the form is the alternative if that value is the Boolean
  false and the consequent for every other value, evaluated in the state the test left.
  An \<^verbatim>\<open>if\<close> form with another number of elements is a \<^verbatim>\<open>SyntaxError\<close>.
\<close>

theorem if_form:
  "(evaluate n test e s = (Return v, s1) \<longrightarrow>
      evaluate (Suc n) (List [Symbol ''if'', test, conseq, alt]) e s
        = (if v = VBool False then evaluate n alt e s1 else evaluate n conseq e s1)) \<and>
   (length rest \<noteq> 3 \<longrightarrow>
      evaluate (Suc n) (List (Symbol ''if'' # rest)) e s = (Raise SyntaxError, s))"
  by (auto simp: special_forms_def split: list.splits)

theorem if_form_witness:
  "evaluate 1 (Number (Finite 0)) global_env create_global_env
     = (Return (VFloat (Finite 0)), create_global_env) \<and>
   evaluate 2 (List [Symbol ''if'', Number (Finite 0), Number (Finite 1), Number (Finite 2)])
       global_env create_global_env
     = (Return (VFloat (Finite 1)), create_global_env) \<and>
   evaluate 1 (Boolean False) global_env create_global_env
     = (Return (VBool False), create_global_env) \<and>
   evaluate 2 (List [Symbol ''if'', Boolean False, Number (Finite 1), Number (Finite 2)])
       global_env create_global_env
     = (Return (VFloat (Finite 2)), create_global_env) \<and>
   length [Number (Finite 1)] \<noteq> 3 \<and>
   evaluate 2 (List [Symbol ''if'', Number (Finite 1)]) global_env create_global_env
     = (Raise SyntaxError, create_global_env)"
  using if_form [of 1 "Number (Finite 0)" global_env create_global_env "VFloat (Finite 0)"
                    create_global_env "Number (Finite 1)" "Number (Finite 2)" "[Number (Finite 1)]"]
    if_form [of 1 "Boolean False" global_env create_global_env "VBool False"
                    create_global_env "Number (Finite 1)" "Number (Finite 2)" "[Number (Finite 1)]"]
  by (simp add: numeral_2_eq_2)

lemma and_loop_start: "xs \<noteq> [] \<Longrightarrow> and_loop n xs v e s = and_loop n xs v' e s"
  by (cases xs) simp_all

lemma or_loop_start: "xs \<noteq> [] \<Longrightarrow> or_loop n xs v e s = or_loop n xs v' e s"
  by (cases xs) simp_all

text \<open>
  C8: \<^verbatim>\<open>and\<close> without operands is true and \<^verbatim>\<open>or\<close> without operands is false.  With
  operands, the first one is evaluated first.  \<^verbatim>\<open>and\<close> returns false at once when it is
  the Boolean false, returns its value when it is the last operand, and otherwise goes on
  with the remaining operands; \<^verbatim>\<open>or\<close> returns its value at once when it is not the Boolean
  false, returns false when it is the last operand, and otherwise goes on.  The operands
  after the deciding one are not evaluated: \<^verbatim>\<open>(and #f (/ 1 0))\<close> and \<^verbatim>\<open>(or #t (/ 1 0))\<close>
  return, although \<^verbatim>\<open>(/ 1 0)\<close> raises.
\<close>

theorem and_or_forms:
  "evaluate (Suc n) (List [Symbol ''and'']) e s = (Return (VBool True), s) \<and>
   evaluate (Suc n) (List [Symbol ''or'']) e s = (Return (VBool False), s) \<and>
   (evaluate n x e s = (Return v, s1) \<longrightarrow>
      evaluate (Suc n) (List (Symbol ''and'' # x # xs)) e s
        = (if v = VBool False then (Return (VBool False), s1)
           else if xs = [] then (Return v, s1)
           else evaluate (Suc n) (List (Symbol ''and'' # xs)) e s1) \<and>
      evaluate (Suc n) (List (Symbol ''or'' # x # xs)) e s
        = (if v \<noteq> VBool False then (Return v, s1)
           else if xs = [] then (Return (VBool False), s1)
           else evaluate (Suc n) (List (Symbol ''or'' # xs)) e s1)) \<and>
   evaluate 3 (List [Symbol ''and'', Boolean False,
                     List [Symbol ''/'', Number (Finite 1), Number (Finite 0)]])
       global_env create_global_env
     = (Return (VBool False), create_global_env) \<and>
   evaluate 3 (List [Symbol ''or'', Boolean True,
                     List [Symbol ''/'', Number (Finite 1), Number (Finite 0)]])
       global_env create_global_env
     = (Return (VBool True), create_global_env) \<and>
   evaluate 3 (List [Symbol ''/'', Number (Finite 1), Number (Finite 0)])
       global_env create_global_env
     = (Raise ZeroDivisionError, create_global_env)"
  using and_loop_start [of xs n v e s1 "VBool True"] or_loop_start [of xs n v e s1 "VBool False"]
  by (auto simp: run_simps)

theorem and_or_forms_witness:
  "evaluate 1 (Number (Finite 0)) global_env create_global_env
     = (Return (VFloat (Finite 0)), create_global_env) \<and>
   evaluate 2 (List [Symbol ''and'', Number (Finite 0), Boolean True]) global_env create_global_env
     = evaluate 2 (List [Symbol ''and'', Boolean True]) global_env create_global_env \<and>
   evaluate 2 (List [Symbol ''or'', Number (Finite 0), Boolean True]) global_env create_global_env
     = (Return (VFloat (Finite 0)), create_global_env)"
  using and_or_forms [of 1 global_env create_global_env "Number (Finite 0)" "VFloat (Finite 0)"
                         create_global_env "[Boolean True]"]
  by (simp add: numeral_2_eq_2)

text \<open>
  C10: in every environment and state, whatever the symbols \<^verbatim>\<open>define\<close>, \<^verbatim>\<open>if\<close>, \<^verbatim>\<open>lambda\<close>,
  \<^verbatim>\<open>and\<close>, \<^verbatim>\<open>or\<close> are bound to, a list headed by one of them is evaluated by the handler of
  that special form.  After \<^verbatim>\<open>(define if +)\<close>, the form \<^verbatim>\<open>(if #f 1 2)\<close> is still \<^verbatim>\<open>2.0\<close>.
\<close>

theorem special_forms_not_shadowed:
  "evaluate (Suc n) (List (Symbol ''define'' # rest)) e s
     = sf_define n (Symbol ''define'' # rest) e s \<and>
   evaluate (Suc n) (List (Symbol ''if'' # rest)) e s = sf_if n (Symbol ''if'' # rest) e s \<and>
   evaluate (Suc n) (List (Symbol ''lambda'' # rest)) e s
     = sf_lambda (Symbol ''lambda'' # rest) e s \<and>
   evaluate (Suc n) (List (Symbol ''and'' # rest)) e s = sf_and n (Symbol ''and'' # rest) e s \<and>
   evaluate (Suc n) (List (Symbol ''or'' # rest)) e s = sf_or n (Symbol ''or'' # rest) e s \<and>
   fst (run_forms 3
     [List [Symbol ''define'', Symbol ''if'', Symbol ''+''],
      List [Symbol ''if'', Boolean False, Number (Finite 1), Number (Finite 2)],
      List [Symbol ''+'', Boolean False, Number (Finite 1), Number (Finite 2)]]
     global_env create_global_env)
   = [Return VNone, Return (VFloat (Finite 2)), Return (VFloat (Finite 3))]"
proof -
  have "fst (run_forms 3
     [List [Symbol ''define'', Symbol ''if'', Symbol ''+''],
      List [Symbol ''if'', Boolean False, Number (Finite 1), Number (Finite 2)],
      List [Symbol ''+'', Boolean False, Number (Finite 1), Number (Finite 2)]]
     global_env create_global_env)
   = [Return VNone, Return (VFloat (Finite 2)), Return (VFloat (Finite 3))]"
    by (simp add: run_simps)
  then show ?thesis
    by (simp add: special_forms_def del: sf_define.simps sf_if.simps sf_and.simps sf_or.simps)
qed

section \<open>Lookup and definition in the environment chain\<close>

lemma find_first:
  "find h e x =
     (case filter (\<lambda>a. h a x \<noteq> None) (chain e) of [] \<Rightarrow> Raise NameError | a # _ \<Rightarrow> Return a)"
  by (induction h e x rule: find.induct) (auto split: option.splits)

lemma hd_chain: "hd (chain e) = bindings e"
  by (cases e) simp

text \<open>
  C9: the dictionaries of an environment are searched from the innermost outward, and
  the first one that holds the symbol gives its value, whatever the outer ones hold.  A
  symbol that no dictionary of the chain holds is a \<^verbatim>\<open>NameError\<close>.  A \<^verbatim>\<open>define\<close> whose value
  evaluates returns \<^verbatim>\<open>None\<close> and writes the value under the symbol into the dictionary of
  the current environment, the head of the chain; no other entry of any dictionary
  changes, and no dictionary is created.
\<close>

theorem lookup_and_define:
  "(chain e = pre @ a # post \<longrightarrow> (\<forall>b\<in>set pre. heap s b x = None) \<longrightarrow> heap s a x = Some v \<longrightarrow>
      evaluate (Suc n) (Symbol x) e s = (Return v, s)) \<and>
   ((\<forall>b\<in>set (chain e). heap s b x = None) \<longrightarrow>
      evaluate (Suc n) (Symbol x) e s = (Raise NameError, s)) \<and>
   (evaluate n value e s = (Return v, s1) \<longrightarrow>
      evaluate (Suc n) (List [Symbol ''define'', Symbol x, value]) e s
        = (Return VNone, setitem e x v s1) \<and>
      bindings e = hd (chain e) \<and>
      heap (setitem e x v s1) (bindings e) x = Some v \<and>
      (\<forall>b y. (b, y) \<noteq> (bindings e, x) \<longrightarrow> heap (setitem e x v s1) b y = heap s1 b y) \<and>
      fresh (setitem e x v s1) = fresh s1)"
proof (intro conjI impI)
  assume c: "chain e = pre @ a # post" and p: "\<forall>b\<in>set pre. heap s b x = None"
    and a: "heap s a x = Some v"
  from p have "filter (\<lambda>a. heap s a x \<noteq> None) pre = []" by (simp add: filter_empty_conv)
  with c a have "find (heap s) e x = Return a" by (simp add: find_first)
  with a show "evaluate (Suc n) (Symbol x) e s = (Return v, s)" by (simp add: getitem_def)
next
  assume "\<forall>b\<in>set (chain e). heap s b x = None"
  then have "filter (\<lambda>a. heap s a x \<noteq> None) (chain e) = []" by (simp add: filter_empty_conv)
  then have "find (heap s) e x = Raise NameError" by (simp add: find_first)
  then show "evaluate (Suc n) (Symbol x) e s = (Raise NameError, s)" by (simp add: getitem_def)
next
  assume "evaluate n value e s = (Return v, s1)"
  then show "evaluate (Suc n) (List [Symbol ''define'', Symbol x, value]) e s
        = (Return VNone, setitem e x v s1)" by simp
next
  show "bindings e = hd (chain e)" by (simp add: hd_chain)
  show "heap (setitem e x v s1) (bindings e) x = Some v" by (simp add: setitem_def)
  show "\<forall>b y. (b, y) \<noteq> (bindings e, x) \<longrightarrow> heap (setitem e x v s1) b y = heap s1 b y"
    by (simp add: setitem_def)
  show "fresh (setitem e x v s1) = fresh s1" by (simp add: setitem_def)
qed

theorem lookup_and_define_witness:
  "chain (Env 1 (Some global_env)) = [1] @ 0 # [] \<and>
   heap create_global_env 1 ''+'' = None \<and>
   heap create_global_env 0 ''+'' = Some (Builtin PAdd) \<and>
   evaluate 1 (Symbol ''+'') (Env 1 (Some global_env)) create_global_env
     = (Return (Builtin PAdd), create_global_env) \<and>
   heap create_global_env 1 ''y'' = None \<and> heap create_global_env 0 ''y'' = None \<and>
   evaluate 1 (Symbol ''y'') (Env 1 (Some global_env)) create_global_env
     = (Raise NameError, create_global_env) \<and>
   evaluate 1 (Number (Finite 7)) (Env 1 (Some global_env)) create_global_env
     = (Return (VFloat (Finite 7)), create_global_env) \<and>
   evaluate 2 (List [Symbol ''define'', Symbol ''+'', Number (Finite 7)])
       (Env 1 (Some global_env)) create_global_env
     = (Return VNone, setitem (Env 1 (Some global_env)) ''+'' (VFloat (Finite 7)) create_global_env) \<and>
   heap (setitem (Env 1 (Some global_env)) ''+'' (VFloat (Finite 7)) create_global_env) 0 ''+''
     = Some (Builtin PAdd) \<and>
   evaluate 1 (Symbol ''+'') (Env 1 (Some global_env))
       (setitem (Env 1 (Some global_env)) ''+'' (VFloat (Finite 7)) create_global_env)
     = (Return (VFloat (Finite 7)),
        setitem (Env 1 (Some global_env)) ''+'' (VFloat (Finite 7)) create_global_env)"
  using lookup_and_define
      [of "Env 1 (Some global_env)" "[1]" 0 "[]" create_global_env "''+''" "Builtin PAdd" 0
          "Number (Finite 7)" create_global_env]
    lookup_and_define
      [of "Env 1 (Some global_env)" "[]" 1 "[0]"
          "setitem (Env 1 (Some global_env)) ''+'' (VFloat (Finite 7)) create_global_env"
          "''+''" "VFloat (Finite 7)" 0 "Number (Finite 7)"
          "setitem (Env 1 (Some global_env)) ''+'' (VFloat (Finite 7)) create_global_env"]
    lookup_and_define
      [of "Env 1 (Some global_env)" "[1]" 0 "[]" create_global_env "''y''" "VFloat (Finite 7)" 1
          "Number (Finite 7)" create_global_env]
    lookup_and_define
      [of "Env 1 (Some global_env)" "[1]" 0 "[]" create_global_env "''+''" "VFloat (Finite 7)" 1
          "Number (Finite 7)" create_global_env]
  by (simp add: global_env_def global_bindings_def setitem_def create_global_env_def numeral_2_eq_2)

section \<open>What the parser consumes\<close>













end
